theory Spec2Isabelle
  imports Main
begin

section \<open>The Letterboxd notification bot (litterboxd.py)\<close>

text \<open>
  The program keeps two module-level dictionaries, \<open>subscribed_users\<close> (chat id to
  Letterboxd username) and \<open>last_logged_movies\<close> (username to the title last notified),
  persists both as JSON files, and polls the RSS feed of every subscribed username.

  The embedding keeps the program's names. Its collaborators are parameters:
  \<^item> \<open>feedparser.parse\<close> is a function from the feed URL to what the call does: it
    returns the list of parsed entries (empty for a feed it could not fetch or parse and
    reports as such), or it raises; an entry has a \<open>title\<close> and a \<open>link\<close>, or lacks
    one, and reading an attribute that an entry lacks raises \<open>AttributeError\<close>;
  \<^item> the Telegram transport either delivers a message or raises;
  \<^item> opening and writing a file either succeeds or raises \<open>OSError\<close>.
  An exception leaves the state as it was when it was raised, so every operation returns
  the exception, if any, together with the state reached.
\<close>

subsection \<open>Python dictionaries\<close>

text \<open>
  A \<open>dict\<close> keeps insertion order, and the polling loop iterates in that order, so a
  dictionary is an association list. \<open>d[k] = v\<close> overwrites in place or appends;
  \<open>del d[k]\<close> removes the entry; \<open>d.get(k)\<close> is \<open>map_of\<close>.
\<close>

fun dict_set :: "'k \<Rightarrow> 'v \<Rightarrow> ('k \<times> 'v) list \<Rightarrow> ('k \<times> 'v) list" where
  "dict_set k v [] = [(k, v)]"
| "dict_set k v (p # ps) = (if fst p = k then (k, v) # ps else p # dict_set k v ps)"

definition dict_del :: "'k \<Rightarrow> ('k \<times> 'v) list \<Rightarrow> ('k \<times> 'v) list" where
  "dict_del k d = filter (\<lambda>p. fst p \<noteq> k) d"

definition dict_in :: "'k \<Rightarrow> ('k \<times> 'v) list \<Rightarrow> bool" where
  "dict_in k d = (k \<in> set (map fst d))"

text \<open>
  The keys of \<open>subscribed_users\<close> are what the program puts there: the integer
  \<open>update.message.chat_id\<close> on \<open>/subscribe\<close>, and the strings \<open>json.load\<close> produces
  after a restart. In Python \<open>42\<close> and \<open>"42"\<close> are different keys.
\<close>

datatype key = IntKey int | StrKey string

subsection \<open>JSON files\<close>

text \<open>
  \<open>json.dump\<close> writes a dictionary as a JSON object. Object member names are strings:
  an integer key is written as its decimal representation, a string key as it is. The
  content of a file is held as the sequence of members of that object (the text encoding
  of strings is not modelled). \<open>json.load\<close> builds a dictionary from the members in
  order, a repeated name overwriting the earlier value. The two files are the program's
  own: a file is absent, holds an object that \<open>save_data\<close> wrote (strings as values), or
  holds the remains of a write that broke off, on which \<open>json.load\<close> raises.
\<close>

definition digit_char :: "nat \<Rightarrow> char" where
  "digit_char n = char_of (48 + n)"

function str_nat :: "nat \<Rightarrow> string" where
  "str_nat n = (if n < 10 then [digit_char n] else str_nat (n div 10) @ [digit_char (n mod 10)])"
  by pat_completeness auto
termination
  by (relation "measure (\<lambda>n. n)") auto

declare str_nat.simps [simp del]

definition str_int :: "int \<Rightarrow> string" where
  "str_int i = (if i < 0 then CHR ''-'' # str_nat (nat (- i)) else str_nat (nat i))"

fun key_name :: "key \<Rightarrow> string" where
  "key_name (IntKey i) = str_int i"
| "key_name (StrKey s) = s"

type_synonym json_object = "(string \<times> string) list"

datatype file_content = Missing | Content json_object | Garbled

definition json_dump_users :: "(key \<times> string) list \<Rightarrow> json_object" where
  "json_dump_users d = map (\<lambda>p. (key_name (fst p), snd p)) d"

definition json_dump_movies :: "(string \<times> string) list \<Rightarrow> json_object" where
  "json_dump_movies d = d"

definition json_load_movies :: "json_object \<Rightarrow> (string \<times> string) list" where
  "json_load_movies j = fold (\<lambda>p d. dict_set (fst p) (snd p) d) j []"

definition json_load_users :: "json_object \<Rightarrow> (key \<times> string) list" where
  "json_load_users j = fold (\<lambda>p d. dict_set (StrKey (fst p)) (snd p) d) j []"

subsection \<open>State and environment\<close>

datatype exn = OSError | JSONDecodeError | TelegramError | ConnectionError | AttributeError

datatype write_outcome = Written | OpenRefused | WriteBroken

record entry =
  title :: "string option"
  link :: "string option"

text \<open>
  What the outside world does during one step: what \<open>feedparser.parse\<close> returns or
  raises for each URL, whether Telegram delivers, and whether each of the two files can
  be written.
\<close>

record env =
  feed :: "string \<Rightarrow> exn + entry list"
  delivered :: bool
  users_write :: write_outcome
  movies_write :: write_outcome

text \<open>
  The two globals, the two files \<open>users.json\<close> and \<open>last_logged_movies.json\<close>, and the
  messages the bot has delivered so far (oldest first), each with its chat id.
\<close>

record state =
  subscribed_users :: "(key \<times> string) list"
  last_logged_movies :: "(string \<times> string) list"
  users_json :: file_content
  last_logged_movies_json :: file_content
  sent :: "(key \<times> string) list"

subsection \<open>Persistence\<close>

text \<open>
  \<open>open(name, 'w')\<close> either raises and leaves the file alone, or truncates it; a write
  that then fails leaves a file that is no JSON document.
\<close>

fun write_file :: "write_outcome \<Rightarrow> json_object \<Rightarrow> file_content \<Rightarrow> exn option \<times> file_content" where
  "write_file Written j f = (None, Content j)"
| "write_file OpenRefused j f = (Some OSError, f)"
| "write_file WriteBroken j f = (Some OSError, Garbled)"

definition save_data :: "env \<Rightarrow> state \<Rightarrow> exn option \<times> state" where
  "save_data w st =
     (case write_file (users_write w) (json_dump_users (subscribed_users st)) (users_json st) of
        (Some e, f) \<Rightarrow> (Some e, st\<lparr>users_json := f\<rparr>)
      | (None, f) \<Rightarrow>
          (case write_file (movies_write w) (json_dump_movies (last_logged_movies st))
                  (last_logged_movies_json st) of
             (e, g) \<Rightarrow> (e, st\<lparr>users_json := f, last_logged_movies_json := g\<rparr>)))"

definition load_data :: "state \<Rightarrow> exn option \<times> state" where
  "load_data st =
     (case users_json st of
        Garbled \<Rightarrow> (Some JSONDecodeError, st)
      | u \<Rightarrow>
          (let st1 = (case u of Content j \<Rightarrow> st\<lparr>subscribed_users := json_load_users j\<rparr> | _ \<Rightarrow> st)
           in case last_logged_movies_json st1 of
                Garbled \<Rightarrow> (Some JSONDecodeError, st1)
              | Content j \<Rightarrow> (None, st1\<lparr>last_logged_movies := json_load_movies j\<rparr>)
              | Missing \<Rightarrow> (None, st1)))"

subsection \<open>Fetching the feed\<close>

text \<open>Python's \<open>xs[:n]\<close>: a negative \<open>n\<close> counts from the end.\<close>

definition py_slice_to :: "int \<Rightarrow> 'a list \<Rightarrow> 'a list" where
  "py_slice_to n xs = (if 0 \<le> n then take (nat n) xs else take (nat (int (length xs) + n)) xs)"

text \<open>The pair \<open>(entry.title, entry.link)\<close>, the title being read first.\<close>

definition movie_of :: "entry \<Rightarrow> exn + string \<times> string" where
  "movie_of e =
     (case title e of
        None \<Rightarrow> Inl AttributeError
      | Some t \<Rightarrow> (case link e of None \<Rightarrow> Inl AttributeError | Some l \<Rightarrow> Inr (t, l)))"

text \<open>The list comprehension over the sliced entries: the first exception ends it.\<close>

fun movies_of :: "entry list \<Rightarrow> exn + (string \<times> string) list" where
  "movies_of [] = Inr []"
| "movies_of (e # es) =
     (case movie_of e of
        Inl x \<Rightarrow> Inl x
      | Inr m \<Rightarrow> (case movies_of es of Inl x \<Rightarrow> Inl x | Inr ms \<Rightarrow> Inr (m # ms)))"

text \<open>
  \<open>get_latest_movies\<close> has no exception handler: what \<open>feedparser.parse\<close> raises, and
  the \<open>AttributeError\<close> of an entry among the first \<open>count\<close> that lacks its title or
  link, reach the caller.
\<close>

definition get_latest_movies :: "(string \<Rightarrow> exn + entry list) \<Rightarrow> string \<Rightarrow> int \<Rightarrow> exn + (string \<times> string) list" where
  "get_latest_movies parse rss_url count =
     (case parse rss_url of
        Inl x \<Rightarrow> Inl x
      | Inr entries \<Rightarrow>
          if entries \<noteq> [] then movies_of (py_slice_to count entries) else Inr [])"

definition construct_rss_url :: "string \<Rightarrow> string" where
  "construct_rss_url username = ''https://letterboxd.com/'' @ username @ ''/rss/''"

subsection \<open>Command handlers\<close>

definition send_message :: "env \<Rightarrow> key \<Rightarrow> string \<Rightarrow> state \<Rightarrow> exn option \<times> state" where
  "send_message w chat_id msg st =
     (if delivered w then (None, st\<lparr>sent := sent st @ [(chat_id, msg)]\<rparr>)
      else (Some TelegramError, st))"

definition reply_text :: "env \<Rightarrow> int \<Rightarrow> string \<Rightarrow> state \<Rightarrow> exn option \<times> state" where
  "reply_text w chat_id msg st = send_message w (IntKey chat_id) msg st"

text \<open>\<open>args\<close> is \<open>context.args\<close>: the words after the command; empty when none was given.\<close>

definition subscribe :: "env \<Rightarrow> int \<Rightarrow> string list \<Rightarrow> state \<Rightarrow> exn option \<times> state" where
  "subscribe w chat_id args st =
     (case args of
        username # _ \<Rightarrow>
          (case save_data w
                  (st\<lparr>subscribed_users := dict_set (IntKey chat_id) username (subscribed_users st)\<rparr>) of
             (Some e, st1) \<Rightarrow> (Some e, st1)
           | (None, st1) \<Rightarrow>
               reply_text w chat_id (''Subscribed to updates for '' @ username @ ''!'') st1)
      | [] \<Rightarrow> reply_text w chat_id ''Please provide your Letterboxd username.'' st)"

definition unsubscribe :: "env \<Rightarrow> int \<Rightarrow> state \<Rightarrow> exn option \<times> state" where
  "unsubscribe w chat_id st =
     (if dict_in (IntKey chat_id) (subscribed_users st) then
        (case save_data w
                (st\<lparr>subscribed_users := dict_del (IntKey chat_id) (subscribed_users st)\<rparr>) of
           (Some e, st1) \<Rightarrow> (Some e, st1)
         | (None, st1) \<Rightarrow>
             reply_text w chat_id ''You have been unsubscribed from notifications.'' st1)
      else reply_text w chat_id ''You are not subscribed.'' st)"

definition list_subscriptions :: "env \<Rightarrow> int \<Rightarrow> state \<Rightarrow> exn option \<times> state" where
  "list_subscriptions w chat_id st =
     (case map_of (subscribed_users st) (IntKey chat_id) of
        Some username \<Rightarrow>
          reply_text w chat_id (''You are subscribed to updates for: '' @ username) st
      | None \<Rightarrow> reply_text w chat_id ''You are not subscribed to any usernames.'' st)"

subsection \<open>The polling job\<close>

definition notification :: "string \<Rightarrow> string \<Rightarrow> string \<Rightarrow> string" where
  "notification username ttl lnk =
     ''New movie logged by '' @ username @ '': '' @ ttl @ [CHR 0x0A] @ ''Watch it here: '' @ lnk"

text \<open>The body of the loop of \<open>check_for_new_movies\<close>, for one item of the dictionary.\<close>

definition check_one :: "env \<Rightarrow> key \<times> string \<Rightarrow> state \<Rightarrow> exn option \<times> state" where
  "check_one w item st =
     (let chat_id = fst item; username = snd item;
          rss_url = construct_rss_url username
      in case get_latest_movies (feed w) rss_url 1 of
           Inl x \<Rightarrow> (Some x, st)
         | Inr [] \<Rightarrow> (None, st)
         | Inr (m # _) \<Rightarrow>
             (let ttl = fst m; lnk = snd m
              in if map_of (last_logged_movies st) username \<noteq> Some ttl then
                   (case send_message w chat_id (notification username ttl lnk) st of
                      (Some e, st1) \<Rightarrow> (Some e, st1)
                    | (None, st1) \<Rightarrow>
                        save_data w
                          (st1\<lparr>last_logged_movies :=
                                 dict_set username ttl (last_logged_movies st1)\<rparr>))
                 else (None, st)))"

text \<open>
  The \<open>for\<close> loop: item number \<open>i\<close> meets the world \<open>ws i\<close>; an exception ends the loop.
\<close>

fun for_items :: "(nat \<Rightarrow> env) \<Rightarrow> nat \<Rightarrow> (key \<times> string) list \<Rightarrow> state \<Rightarrow> exn option \<times> state" where
  "for_items ws i [] st = (None, st)"
| "for_items ws i (item # items) st =
     (case check_one (ws i) item st of
        (Some e, st1) \<Rightarrow> (Some e, st1)
      | (None, st1) \<Rightarrow> for_items ws (Suc i) items st1)"

definition check_for_new_movies :: "(nat \<Rightarrow> env) \<Rightarrow> state \<Rightarrow> exn option \<times> state" where
  "check_for_new_movies ws st = for_items ws 0 (subscribed_users st) st"

subsection \<open>Worlds and states used in the examples\<close>

text \<open>A world in which nothing fails, every fetch returning the entries \<open>parse url\<close>.\<close>

definition quiet :: "(string \<Rightarrow> entry list) \<Rightarrow> env" where
  "quiet parse = \<lparr>feed = (\<lambda>url. Inr (parse url)), delivered = True,
                   users_write = Written, movies_write = Written\<rparr>"

text \<open>A feed server that knows one username, with one logged movie.\<close>

definition one_movie :: "string \<Rightarrow> string \<Rightarrow> string \<Rightarrow> string \<Rightarrow> entry list" where
  "one_movie username ttl lnk url =
     (if url = construct_rss_url username then [\<lparr>title = Some ttl, link = Some lnk\<rparr>] else [])"

text \<open>The state of a first run: empty dictionaries, no files, nothing sent.\<close>

definition boot :: state where
  "boot = \<lparr>subscribed_users = [], last_logged_movies = [], users_json = Missing,
           last_logged_movies_json = Missing, sent = []\<rparr>"

text \<open>A feed server that knows \<open>alice\<close>, \<open>bob\<close> and \<open>carol\<close>, each with one movie.\<close>

definition three_feeds :: "string \<Rightarrow> entry list" where
  "three_feeds url =
     one_movie ''alice'' ''Dune Part Two'' ''http://x/1'' url @
     one_movie ''bob'' ''Heat'' ''http://x/2'' url @
     one_movie ''carol'' ''Alien'' ''http://x/3'' url"

text \<open>The worlds of a run in which Telegram refuses the message of item number \<open>n\<close>.\<close>

definition refusing_at :: "nat \<Rightarrow> nat \<Rightarrow> env" where
  "refusing_at n i = (quiet three_feeds)\<lparr>delivered := (i \<noteq> n)\<rparr>"

text \<open>A world in which \<open>users.json\<close> cannot be opened for writing.\<close>

definition read_only :: env where
  "read_only = (quiet three_feeds)\<lparr>users_write := OpenRefused\<rparr>"

text \<open>The scenario of the specification: chat 42 watches \<open>alice\<close>.\<close>

definition alice_watched :: state where
  "alice_watched = boot\<lparr>subscribed_users := [(IntKey 42, ''alice'')]\<rparr>"

subsection \<open>Vocabulary of the statements\<close>

text \<open>In the world \<open>w\<close> the fetch of the feed of \<open>username\<close> returns, whatever it returns.\<close>

definition fetch_returns :: "env \<Rightarrow> string \<Rightarrow> bool" where
  "fetch_returns w username =
     (case get_latest_movies (feed w) (construct_rss_url username) 1 of
        Inl x \<Rightarrow> False
      | Inr movies \<Rightarrow> True)"

text \<open>Neither delivery nor saving fails in the world \<open>w\<close>.\<close>

definition calm :: "env \<Rightarrow> bool" where
  "calm w = (delivered w \<and> users_write w = Written \<and> movies_write w = Written)"

text \<open>One of the two writes of \<open>save_data\<close> fails in the world \<open>w\<close>.\<close>

definition save_fails :: "env \<Rightarrow> bool" where
  "save_fails w = (users_write w \<noteq> Written \<or> movies_write w \<noteq> Written)"

text \<open>The messages sent between two states of one execution.\<close>

definition emitted :: "state \<Rightarrow> state \<Rightarrow> (key \<times> string) list" where
  "emitted st st' = drop (length (sent st)) (sent st')"

text \<open>Of these messages, the ones addressed to the chat \<open>chat_id\<close>.\<close>

definition to_chat :: "key \<Rightarrow> (key \<times> string) list \<Rightarrow> (key \<times> string) list" where
  "to_chat chat_id msgs = filter (\<lambda>m. fst m = chat_id) msgs"

section \<open>Properties\<close>

subsection \<open>What a step leaves alone\<close>

lemma save_data_globals:
  "subscribed_users (snd (save_data w st)) = subscribed_users st"
  "last_logged_movies (snd (save_data w st)) = last_logged_movies st"
  "sent (snd (save_data w st)) = sent st"
  by (cases "users_write w"; cases "movies_write w"; simp add: save_data_def)+

lemma dict_set_keys: "fst ` set (dict_set k v d) = insert k (fst ` set d)"
  by (induction d) auto

lemma check_one_users: "subscribed_users (snd (check_one w item st)) = subscribed_users st"
  unfolding check_one_def Let_def
  by (cases "delivered w")
     (simp_all add: send_message_def save_data_globals split: sum.split list.split)

lemma check_one_movies_keys:
  "fst ` set (last_logged_movies st) \<subseteq> fst ` set (last_logged_movies (snd (check_one w item st)))"
  unfolding check_one_def Let_def
  by (cases "delivered w")
     (auto simp add: send_message_def save_data_globals dict_set_keys split: sum.split list.split)

lemma for_items_frame:
  "subscribed_users (snd (for_items ws i items st)) = subscribed_users st \<and>
   fst ` set (last_logged_movies st) \<subseteq> fst ` set (last_logged_movies (snd (for_items ws i items st)))"
proof (induction items arbitrary: i st)
  case Nil
  show ?case by simp
next
  case (Cons item items)
  obtain e st1 where step: "check_one (ws i) item st = (e, st1)"
    by (cases "check_one (ws i) item st")
  have u1: "subscribed_users st1 = subscribed_users st"
    using check_one_users [of "ws i" item st] step by simp
  have k1: "fst ` set (last_logged_movies st) \<subseteq> fst ` set (last_logged_movies st1)"
    using check_one_movies_keys [of st "ws i" item] step by simp
  show ?case
  proof (cases e)
    case None
    with step Cons.IH [of "Suc i" st1] u1 k1 show ?thesis by auto
  next
    case (Some x)
    with step u1 k1 show ?thesis by simp
  qed
qed

text \<open>
  Claim C10. Whatever the feeds return and whatever fails, one run of
  \<open>check_for_new_movies\<close> leaves \<open>subscribed_users\<close> as it was, and every key of
  \<open>last_logged_movies\<close> before the run is still a key after it: the run only adds or
  overwrites entries there. The state returned is the one reached also when the run
  ended in an exception.
\<close>

theorem tick_frame:
  "subscribed_users (snd (check_for_new_movies ws st)) = subscribed_users st \<and>
   fst ` set (last_logged_movies st)
     \<subseteq> fst ` set (last_logged_movies (snd (check_for_new_movies ws st)))"
  unfolding check_for_new_movies_def by (rule for_items_frame)

theorem tick_frame_witness:
  "subscribed_users (snd (check_for_new_movies
       (\<lambda>i. quiet (one_movie ''bob'' ''Dune'' ''http://x/1''))
       (boot\<lparr>subscribed_users := [(IntKey 2, ''bob'')],
             last_logged_movies := [(''alice'', ''Heat'')]\<rparr>)))
     = subscribed_users (boot\<lparr>subscribed_users := [(IntKey 2, ''bob'')],
             last_logged_movies := [(''alice'', ''Heat'')]\<rparr>) \<and>
   fst ` set (last_logged_movies (boot\<lparr>subscribed_users := [(IntKey 2, ''bob'')],
             last_logged_movies := [(''alice'', ''Heat'')]\<rparr>))
     \<subseteq> fst ` set (last_logged_movies (snd (check_for_new_movies
       (\<lambda>i. quiet (one_movie ''bob'' ''Dune'' ''http://x/1''))
       (boot\<lparr>subscribed_users := [(IntKey 2, ''bob'')],
             last_logged_movies := [(''alice'', ''Heat'')]\<rparr>))))"
  by (rule tick_frame)

subsection \<open>Items whose feed is empty\<close>

lemma for_items_append:
  "for_items ws i (xs @ ys) st =
     (case for_items ws i xs st of
        (Some e, st1) \<Rightarrow> (Some e, st1)
      | (None, st1) \<Rightarrow> for_items ws (i + length xs) ys st1)"
proof (induction xs arbitrary: i st)
  case Nil
  show ?case by simp
next
  case (Cons x xs)
  obtain e st1 where step: "check_one (ws i) x st = (e, st1)"
    by (cases "check_one (ws i) x st")
  obtain e' st2 where rest: "for_items ws (Suc i) xs st1 = (e', st2)"
    by (cases "for_items ws (Suc i) xs st1")
  show ?case
    using step rest Cons.IH [of "Suc i" st1] by (cases e; cases e') simp_all
qed

lemma check_one_empty:
  "get_latest_movies (feed w) (construct_rss_url username) 1 = Inr [] \<Longrightarrow>
   check_one w (chat_id, username) st = (None, st)"
  by (simp add: check_one_def)

text \<open>
  Claim C6. When the fetch for an item \<open>(chat_id, username)\<close> of the loop returns no
  movies, the item is skipped: the loop body returns without an exception and leaves the
  whole state (both dictionaries, both files, the messages sent) as it found it,
  whatever that state is. The loop over \<open>before @ (chat_id, username) # after\<close> is then
  the loop over \<open>before\<close> followed by the loop over \<open>after\<close>, each remaining item
  meeting the same world as it would have: the items after the skipped one are
  processed as usual.
\<close>

theorem empty_fetch_skips_item:
  assumes "get_latest_movies (feed (ws (i + length before))) (construct_rss_url username) 1 = Inr []"
  shows "check_one (ws (i + length before)) (chat_id, username) st' = (None, st') \<and>
         for_items ws i (before @ (chat_id, username) # after) st =
           (case for_items ws i before st of
              (Some e, st1) \<Rightarrow> (Some e, st1)
            | (None, st1) \<Rightarrow> for_items ws (Suc (i + length before)) after st1)"
proof -
  have skip: "check_one (ws (i + length before)) (chat_id, username) s = (None, s)" for s
    using assms by (rule check_one_empty)
  obtain e st1 where pre: "for_items ws i before st = (e, st1)"
    by (cases "for_items ws i before st")
  have "for_items ws i (before @ (chat_id, username) # after) st =
          (case e of Some x \<Rightarrow> (Some x, st1)
           | None \<Rightarrow> for_items ws (Suc (i + length before)) after st1)"
    by (cases e) (simp_all add: for_items_append pre skip)
  with pre skip show ?thesis by (cases e) simp_all
qed

text \<open>
  Two destinations watch \<open>alice\<close> and \<open>bob\<close>; the fetch for \<open>alice\<close> comes back empty;
  \<open>bob\<close>'s watcher is notified, and nothing is recorded for \<open>alice\<close>.
\<close>

theorem empty_fetch_skips_item_witness:
  "get_latest_movies (feed (quiet (one_movie ''bob'' ''Dune'' ''http://x/1'')))
      (construct_rss_url ''alice'') 1 = Inr [] \<and>
   check_for_new_movies (\<lambda>i. quiet (one_movie ''bob'' ''Dune'' ''http://x/1''))
      (boot\<lparr>subscribed_users := [(IntKey 1, ''alice''), (IntKey 2, ''bob'')]\<rparr>) =
     (None, \<lparr>subscribed_users = [(IntKey 1, ''alice''), (IntKey 2, ''bob'')],
             last_logged_movies = [(''bob'', ''Dune'')],
             users_json = Content [(''1'', ''alice''), (''2'', ''bob'')],
             last_logged_movies_json = Content [(''bob'', ''Dune'')],
             sent = [(IntKey 2, notification ''bob'' ''Dune'' ''http://x/1'')]\<rparr>)"
proof -
  let ?ws = "\<lambda>i::nat. quiet (one_movie ''bob'' ''Dune'' ''http://x/1'')"
  let ?st = "boot\<lparr>subscribed_users := [(IntKey 1, ''alice''), (IntKey 2, ''bob'')]\<rparr>"
  have h: "get_latest_movies (feed (?ws (0 + length ([] :: (key \<times> string) list))))
             (construct_rss_url ''alice'') 1 = Inr []"
    by code_simp
  have c: "for_items ?ws 0 ([] @ (IntKey 1, ''alice'') # [(IntKey 2, ''bob'')]) ?st =
           (case for_items ?ws 0 [] ?st of
              (Some e, st1) \<Rightarrow> (Some e, st1)
            | (None, st1) \<Rightarrow>
                for_items ?ws (Suc (0 + length ([] :: (key \<times> string) list)))
                  [(IntKey 2, ''bob'')] st1)"
    using empty_fetch_skips_item [OF h] by (rule conjunct2)
  have r: "for_items ?ws (Suc 0) [(IntKey 2, ''bob'')] ?st =
     (None, \<lparr>subscribed_users = [(IntKey 1, ''alice''), (IntKey 2, ''bob'')],
             last_logged_movies = [(''bob'', ''Dune'')],
             users_json = Content [(''1'', ''alice''), (''2'', ''bob'')],
             last_logged_movies_json = Content [(''bob'', ''Dune'')],
             sent = [(IntKey 2, notification ''bob'' ''Dune'' ''http://x/1'')]\<rparr>)"
    by code_simp
  have s: "subscribed_users ?st = [(IntKey 1, ''alice''), (IntKey 2, ''bob'')]"
    by (simp add: boot_def)
  have g: "get_latest_movies (feed (quiet (one_movie ''bob'' ''Dune'' ''http://x/1'')))
      (construct_rss_url ''alice'') 1 = Inr []"
    by code_simp
  show ?thesis
    using c r g unfolding check_for_new_movies_def s by simp
qed

subsection \<open>Two destinations watching one username\<close>

text \<open>
  Claim C1. The claim asks that every destination subscribed to a username be notified
  of its new movie. The marker \<open>last_logged_movies[username]\<close> is shared by all watchers
  of the username and is advanced inside the loop, as soon as the first of them has been
  notified; when the loop reaches the second watcher the movie is no longer new. With
  chats 1 and 2 both watching \<open>alice\<close>, no marker, and the feed returning "Movie A", the
  run sends one message, to chat 1, and sets the marker; chat 2 gets nothing, in this run
  or any later one with the same feed.
\<close>

theorem second_watcher_not_notified:
  "check_for_new_movies (\<lambda>i. quiet (one_movie ''alice'' ''Movie A'' ''http://x/1''))
     (boot\<lparr>subscribed_users := [(IntKey 1, ''alice''), (IntKey 2, ''alice'')]\<rparr>) =
     (None, \<lparr>subscribed_users = [(IntKey 1, ''alice''), (IntKey 2, ''alice'')],
             last_logged_movies = [(''alice'', ''Movie A'')],
             users_json = Content [(''1'', ''alice''), (''2'', ''alice'')],
             last_logged_movies_json = Content [(''alice'', ''Movie A'')],
             sent = [(IntKey 1, notification ''alice'' ''Movie A'' ''http://x/1'')]\<rparr>)"
  by code_simp

subsection \<open>Saving and loading\<close>

text \<open>
  Claim C3. The claim asks that \<open>save_data\<close> followed by \<open>load_data\<close> give back the
  dictionaries with the same keys, types included. \<open>/subscribe\<close> stores the integer chat
  id as the key; JSON object names are strings, so the file holds \<open>"42"\<close> and the loaded
  dictionary has the string key, which the integer lookups of \<open>/unsubscribe\<close> and
  \<open>/list\<close> do not find.
\<close>

theorem int_key_not_restored:
  "load_data (snd (save_data (quiet (\<lambda>url. []))
      (boot\<lparr>subscribed_users := [(IntKey 42, ''alice'')]\<rparr>))) =
     (None, \<lparr>subscribed_users = [(StrKey ''42'', ''alice'')],
             last_logged_movies = [],
             users_json = Content [(''42'', ''alice'')],
             last_logged_movies_json = Content [],
             sent = []\<rparr>)"
  by code_simp

subsection \<open>What \<open>get_latest_movies\<close> returns\<close>

lemma py_slice_to_nonneg: "0 \<le> n \<Longrightarrow> py_slice_to n xs = take (nat n) xs"
  by (simp add: py_slice_to_def)

lemma movies_of_entries:
  "movies_of (map (\<lambda>m. \<lparr>title = Some (fst m), link = Some (snd m)\<rparr>) movies) = Inr movies"
  by (induction movies) (simp_all add: movie_of_def)

text \<open>
  Claim C9, as amended. \<open>count\<close> is not negative, \<open>feedparser.parse\<close> returns the list
  \<open>entries\<close>, and the first \<open>count\<close> of them (all of them, when there are fewer) have
  the titles and links \<open>movies\<close>, in feed order. Then \<open>get_latest_movies\<close> returns
  \<open>movies\<close>: the (title, link) pairs of the first \<open>min count (number of entries)\<close>
  entries in feed order, at most \<open>count\<close> of them. For any \<open>count\<close> it returns the empty
  list when \<open>feedparser.parse\<close> returns no entries, which is how feedparser reports a
  feed it could not fetch or parse; and an exception that \<open>feedparser.parse\<close> raises is
  not turned into the empty list: it leaves \<open>get_latest_movies\<close>.
\<close>

theorem get_latest_movies_prefix:
  assumes "0 \<le> count"
      and "parse rss_url = Inr entries"
      and "take (nat count) entries =
             map (\<lambda>m. \<lparr>title = Some (fst m), link = Some (snd m)\<rparr>) movies"
  shows "get_latest_movies parse rss_url count = Inr movies \<and>
         length movies = min (nat count) (length entries) \<and>
         int (length movies) \<le> count \<and>
         get_latest_movies (parse(rss_url := Inr [])) rss_url count' = Inr [] \<and>
         get_latest_movies (parse(rss_url := Inl x)) rss_url count' = Inl x"
proof -
  have a: "get_latest_movies parse rss_url count = Inr movies"
  proof (cases "entries = []")
    case True
    with assms(3) have "movies = []" by simp
    with True assms(2) show ?thesis by (simp add: get_latest_movies_def)
  next
    case False
    with assms show ?thesis
      by (simp add: get_latest_movies_def py_slice_to_nonneg movies_of_entries)
  qed
  have "length movies = length (take (nat count) entries)"
    unfolding assms(3) by simp
  then have b: "length movies = min (nat count) (length entries)"
    by (simp add: min.commute)
  have c: "int (length movies) \<le> count"
    using assms(1) b by simp
  have d: "get_latest_movies (parse(rss_url := Inr [])) rss_url count' = Inr []"
    by (simp add: get_latest_movies_def)
  have e: "get_latest_movies (parse(rss_url := Inl x)) rss_url count' = Inl x"
    by (simp add: get_latest_movies_def)
  from a b c d e show ?thesis by simp
qed

theorem get_latest_movies_prefix_witness:
  "(0::int) \<le> 1 \<and>
   take (nat 1) [\<lparr>title = Some ''Dune'', link = Some ''http://x/1''\<rparr>,
                 \<lparr>title = Some ''Heat'', link = None\<rparr>] =
     map (\<lambda>m. \<lparr>title = Some (fst m), link = Some (snd m)\<rparr>) [(''Dune'', ''http://x/1'')] \<and>
   get_latest_movies (\<lambda>url. Inr [\<lparr>title = Some ''Dune'', link = Some ''http://x/1''\<rparr>,
                                  \<lparr>title = Some ''Heat'', link = None\<rparr>]) ''u'' 1 =
     Inr [(''Dune'', ''http://x/1'')]"
proof -
  let ?entries = "[\<lparr>title = Some ''Dune'', link = Some ''http://x/1''\<rparr>,
                   \<lparr>title = Some ''Heat'', link = None\<rparr>]"
  let ?parse = "\<lambda>url::string. Inr ?entries :: exn + entry list"
  have h1: "(0::int) \<le> 1" by simp
  have h3: "take (nat 1) ?entries =
     map (\<lambda>m. \<lparr>title = Some (fst m), link = Some (snd m)\<rparr>) [(''Dune'', ''http://x/1'')]"
    by simp
  show ?thesis
    using h1 h3 get_latest_movies_prefix [of 1 ?parse "''u''" ?entries "[(''Dune'', ''http://x/1'')]"]
    by simp
qed

text \<open>
  Claim C9 as stated fails in three ways. For a negative \<open>count\<close> the slice
  \<open>entries[:-1]\<close> drops the last entry and keeps the others, so a feed of two entries
  gives one pair, which is more than \<open>count\<close>. A fetch that fails by raising, here a
  connection reset inside \<open>feedparser.parse\<close>, gives no list at all: the exception
  leaves the function. So does the \<open>AttributeError\<close> of an entry without a link.
\<close>

theorem negative_count_counterexample:
  "get_latest_movies (\<lambda>url. Inr [\<lparr>title = Some ''Dune'', link = Some ''http://x/1''\<rparr>,
                                  \<lparr>title = Some ''Heat'', link = Some ''http://x/2''\<rparr>]) ''u'' (- 1) =
     Inr [(''Dune'', ''http://x/1'')] \<and>
   \<not> int (length [(''Dune'', ''http://x/1'')]) \<le> - 1 \<and>
   get_latest_movies (\<lambda>url. Inl ConnectionError) ''u'' 1 = Inl ConnectionError \<and>
   get_latest_movies (\<lambda>url. Inr [\<lparr>title = Some ''Dune'', link = None\<rparr>]) ''u'' 1 =
     Inl AttributeError"
  by (simp add: get_latest_movies_def py_slice_to_def movie_of_def)

subsection \<open>Subscribing\<close>

lemma map_of_dict_set: "map_of (dict_set k v d) = (map_of d)(k \<mapsto> v)"
  by (induction d) (auto simp: fun_eq_iff)

lemma dict_set_distinct: "distinct (map fst d) \<Longrightarrow> distinct (map fst (dict_set k v d))"
  by (induction d) (auto simp: dict_set_keys)

lemma dict_set_once:
  "distinct (map fst d) \<Longrightarrow> length (filter (\<lambda>p. fst p = k) (dict_set k v d)) = 1"
proof (induction d)
  case Nil
  show ?case by simp
next
  case (Cons p d)
  show ?case
  proof (cases "fst p = k")
    case True
    with Cons.prems have "k \<notin> fst ` set d" by auto
    then have "filter (\<lambda>p. fst p = k) d = []" by (auto simp: filter_empty_conv)
    with True show ?thesis by simp
  next
    case False
    with Cons show ?thesis by simp
  qed
qed

lemma dict_set_twice: "dict_set k v (dict_set k v d) = dict_set k v d"
  by (induction d) auto

lemma subscribe_users:
  "subscribed_users (snd (subscribe w chat_id (username # rest) st)) =
     dict_set (IntKey chat_id) username (subscribed_users st)"
  by (cases "users_write w"; cases "movies_write w"; cases "delivered w")
     (simp_all add: subscribe_def save_data_def reply_text_def send_message_def)

lemma subscribe_movies:
  "last_logged_movies (snd (subscribe w chat_id args st)) = last_logged_movies st"
  by (cases "users_write w"; cases "movies_write w"; cases "delivered w"; cases args)
     (simp_all add: subscribe_def save_data_def reply_text_def send_message_def)

text \<open>
  Claim C7. \<open>st1\<close> is the state after \<open>/subscribe username\<close> from chat \<open>chat_id\<close>, and
  \<open>st2\<close> the state after the same command once more (in any world, with any further
  arguments). After the first call the dictionary maps \<open>chat_id\<close> to \<open>username\<close> and
  every other key as before, holds exactly one entry with the key \<open>chat_id\<close>, and has no
  repeated key; the second call changes neither dictionary. The dictionary is taken
  with distinct keys, as every Python \<open>dict\<close> has. The key is the integer chat id: an
  entry that \<open>load_data\<close> brought back under the string of the same number is another
  key (see C3).
\<close>

theorem subscribe_upsert:
  assumes "distinct (map fst (subscribed_users st))"
      and "st1 = snd (subscribe w chat_id (username # rest) st)"
      and "st2 = snd (subscribe w' chat_id (username # rest') st1)"
  shows "map_of (subscribed_users st1) = (map_of (subscribed_users st))(IntKey chat_id \<mapsto> username) \<and>
         length (filter (\<lambda>p. fst p = IntKey chat_id) (subscribed_users st1)) = 1 \<and>
         distinct (map fst (subscribed_users st1)) \<and>
         last_logged_movies st1 = last_logged_movies st \<and>
         subscribed_users st2 = subscribed_users st1 \<and>
         last_logged_movies st2 = last_logged_movies st1 \<and>
         map_of (subscribed_users st2) (IntKey chat_id) = Some username \<and>
         length (filter (\<lambda>p. fst p = IntKey chat_id) (subscribed_users st2)) = 1"
proof -
  have u1: "subscribed_users st1 = dict_set (IntKey chat_id) username (subscribed_users st)"
    unfolding assms(2) by (rule subscribe_users)
  have u2: "subscribed_users st2 = subscribed_users st1"
    unfolding assms(3) subscribe_users u1 by (rule dict_set_twice)
  have m1: "last_logged_movies st1 = last_logged_movies st"
    unfolding assms(2) by (rule subscribe_movies)
  have m2: "last_logged_movies st2 = last_logged_movies st1"
    unfolding assms(3) by (rule subscribe_movies)
  have once: "length (filter (\<lambda>p. fst p = IntKey chat_id) (subscribed_users st1)) = 1"
    unfolding u1 using assms(1) by (rule dict_set_once)
  have dist: "distinct (map fst (subscribed_users st1))"
    unfolding u1 using assms(1) by (rule dict_set_distinct)
  have look: "map_of (subscribed_users st1) = (map_of (subscribed_users st))(IntKey chat_id \<mapsto> username)"
    unfolding u1 by (rule map_of_dict_set)
  from u2 m1 m2 once dist look show ?thesis by simp
qed

theorem subscribe_upsert_witness:
  "distinct (map fst (subscribed_users boot)) \<and>
   map_of (subscribed_users (snd (subscribe (quiet three_feeds) 42 [''alice''] boot))) (IntKey 42)
     = Some ''alice'' \<and>
   subscribed_users (snd (subscribe (quiet three_feeds) 42 [''alice'']
       (snd (subscribe (quiet three_feeds) 42 [''alice''] boot)))) =
     subscribed_users (snd (subscribe (quiet three_feeds) 42 [''alice''] boot)) \<and>
   length (filter (\<lambda>p. fst p = IntKey 42)
     (subscribed_users (snd (subscribe (quiet three_feeds) 42 [''alice'']
       (snd (subscribe (quiet three_feeds) 42 [''alice''] boot)))))) = 1"
proof -
  have h: "distinct (map fst (subscribed_users boot))"
    by (simp add: boot_def)
  show ?thesis
    using h subscribe_upsert [OF h refl refl, of "quiet three_feeds" 42 "''alice''" "[]"
        "quiet three_feeds" "[]"]
    by simp
qed

subsection \<open>Unsubscribing\<close>

lemma unsubscribe_removes:
  "\<not> dict_in (IntKey chat_id) (subscribed_users (snd (unsubscribe w chat_id st)))"
  by (cases "users_write w"; cases "movies_write w"; cases "delivered w")
     (auto simp add: unsubscribe_def save_data_def reply_text_def send_message_def
        dict_in_def dict_del_def)

lemma map_of_absent: "\<not> dict_in k d \<Longrightarrow> map_of d k = None"
  by (simp add: dict_in_def map_of_eq_None_iff)

text \<open>
  Claim C8. \<open>st1\<close> is the state after \<open>/unsubscribe\<close> from chat \<open>chat_id\<close>, however that
  call ended. It holds no entry with the key \<open>chat_id\<close>. \<open>/list\<close> then answers "You are
  not subscribed to any usernames." and \<open>/unsubscribe\<close> once more answers "You are not
  subscribed.": both return without an exception, and apart from the answer sent the
  state (both dictionaries and both files) is \<open>st1\<close> unchanged. The answers are
  delivered when Telegram delivers them, which is the hypothesis on the worlds \<open>w2\<close> and
  \<open>w3\<close>. The key is the integer chat id (see C3 for entries loaded from disk).
\<close>

theorem unsubscribe_then_list:
  assumes "st1 = snd (unsubscribe w chat_id st)"
      and "delivered w2"
      and "delivered w3"
  shows "\<not> dict_in (IntKey chat_id) (subscribed_users st1) \<and>
         list_subscriptions w2 chat_id st1 =
           (None, st1\<lparr>sent := sent st1 @
              [(IntKey chat_id, ''You are not subscribed to any usernames.'')]\<rparr>) \<and>
         unsubscribe w3 chat_id st1 =
           (None, st1\<lparr>sent := sent st1 @ [(IntKey chat_id, ''You are not subscribed.'')]\<rparr>)"
proof -
  have gone: "\<not> dict_in (IntKey chat_id) (subscribed_users st1)"
    unfolding assms(1) by (rule unsubscribe_removes)
  have l: "list_subscriptions w2 chat_id st1 =
           (None, st1\<lparr>sent := sent st1 @
              [(IntKey chat_id, ''You are not subscribed to any usernames.'')]\<rparr>)"
    using assms(2) map_of_absent [OF gone]
    by (simp add: list_subscriptions_def reply_text_def send_message_def)
  have u: "unsubscribe w3 chat_id st1 =
           (None, st1\<lparr>sent := sent st1 @ [(IntKey chat_id, ''You are not subscribed.'')]\<rparr>)"
    using assms(3) gone
    by (simp add: unsubscribe_def reply_text_def send_message_def)
  from gone l u show ?thesis by simp
qed

theorem unsubscribe_then_list_witness:
  "delivered (quiet three_feeds) \<and>
   \<not> dict_in (IntKey 42) (subscribed_users (snd (unsubscribe (quiet three_feeds) 42 alice_watched))) \<and>
   unsubscribe (quiet three_feeds) 42 (snd (unsubscribe (quiet three_feeds) 42 alice_watched)) =
     (None, \<lparr>subscribed_users = [], last_logged_movies = [],
             users_json = Content [], last_logged_movies_json = Content [],
             sent = [(IntKey 42, ''You have been unsubscribed from notifications.''),
                     (IntKey 42, ''You are not subscribed.'')]\<rparr>)"
proof -
  let ?w = "quiet three_feeds"
  have d: "delivered ?w" by (simp add: quiet_def)
  have v: "snd (unsubscribe ?w 42 alice_watched) =
     \<lparr>subscribed_users = [], last_logged_movies = [],
             users_json = Content [], last_logged_movies_json = Content [],
             sent = [(IntKey 42, ''You have been unsubscribed from notifications.'')]\<rparr>"
    by code_simp
  show ?thesis
    using d unsubscribe_then_list [OF refl d d, of 42 ?w alice_watched] unfolding v by simp
qed

subsection \<open>When saving fails\<close>

lemma save_data_fails:
  "save_fails w \<Longrightarrow> fst (save_data w st) = Some OSError"
  by (cases "users_write w"; cases "movies_write w") (simp_all add: save_data_def save_fails_def)

text \<open>
  Claim C5, as amended. The three operations that change a dictionary change it first
  and save afterwards, and nothing undoes the change. When one of the writes of
  \<open>save_data\<close> fails, the operation ends with that \<open>OSError\<close>; the dictionary in memory
  holds the change all the same (the new subscription, the removed subscription, the
  advanced marker); \<open>/subscribe\<close> and \<open>/unsubscribe\<close> send no confirmation, and the
  polling step has already sent its notification.
\<close>

theorem save_failure_keeps_mutation:
  assumes "save_fails w"
      and "save_fails w'"
      and "dict_in (IntKey chat_id') (subscribed_users st')"
      and "save_fails w''"
      and "delivered w''"
      and "get_latest_movies (feed w'') (construct_rss_url username'') 1 = Inr ((ttl, lnk) # rest'')"
      and "map_of (last_logged_movies st'') username'' \<noteq> Some ttl"
  shows "fst (subscribe w chat_id (username # rest) st) = Some OSError \<and>
         subscribed_users (snd (subscribe w chat_id (username # rest) st)) =
           dict_set (IntKey chat_id) username (subscribed_users st) \<and>
         sent (snd (subscribe w chat_id (username # rest) st)) = sent st \<and>
         fst (unsubscribe w' chat_id' st') = Some OSError \<and>
         subscribed_users (snd (unsubscribe w' chat_id' st')) =
           dict_del (IntKey chat_id') (subscribed_users st') \<and>
         sent (snd (unsubscribe w' chat_id' st')) = sent st' \<and>
         fst (check_one w'' (chat_id'', username'') st'') = Some OSError \<and>
         last_logged_movies (snd (check_one w'' (chat_id'', username'') st'')) =
           dict_set username'' ttl (last_logged_movies st'') \<and>
         sent (snd (check_one w'' (chat_id'', username'') st'')) =
           sent st'' @ [(chat_id'', notification username'' ttl lnk)]"
proof -
  have f: "save_fails v \<Longrightarrow> save_data v s = (Some OSError, snd (save_data v s))" for v s
    using save_data_fails [of v s] by (cases "save_data v s") simp
  have sub: "subscribe w chat_id (username # rest) st =
     (Some OSError, snd (save_data w
        (st\<lparr>subscribed_users := dict_set (IntKey chat_id) username (subscribed_users st)\<rparr>)))"
    unfolding subscribe_def by (subst f [OF assms(1)]) simp
  have unsub: "unsubscribe w' chat_id' st' =
     (Some OSError, snd (save_data w'
        (st'\<lparr>subscribed_users := dict_del (IntKey chat_id') (subscribed_users st')\<rparr>)))"
    unfolding unsubscribe_def using assms(3) by (subst f [OF assms(2)]) simp
  have chk: "check_one w'' (chat_id'', username'') st'' =
     (Some OSError, snd (save_data w''
        (st''\<lparr>sent := sent st'' @ [(chat_id'', notification username'' ttl lnk)],
              last_logged_movies := dict_set username'' ttl (last_logged_movies st'')\<rparr>)))"
    unfolding check_one_def using assms(5,6,7)
    by (subst f [OF assms(4)]) (simp add: send_message_def)
  show ?thesis
    unfolding sub unsub chk by (simp add: save_data_globals)
qed

theorem save_failure_keeps_mutation_witness:
  "save_fails read_only \<and>
   fst (subscribe read_only 7 [''bob''] alice_watched) = Some OSError \<and>
   subscribed_users (snd (subscribe read_only 7 [''bob''] alice_watched)) =
     [(IntKey 42, ''alice''), (IntKey 7, ''bob'')] \<and>
   fst (unsubscribe read_only 42 alice_watched) = Some OSError \<and>
   subscribed_users (snd (unsubscribe read_only 42 alice_watched)) = [] \<and>
   fst (check_one read_only (IntKey 42, ''alice'') alice_watched) = Some OSError \<and>
   last_logged_movies (snd (check_one read_only (IntKey 42, ''alice'') alice_watched)) =
     [(''alice'', ''Dune Part Two'')]"
proof -
  have h1: "save_fails read_only"
    by (simp add: save_fails_def read_only_def quiet_def)
  have h2: "dict_in (IntKey 42) (subscribed_users alice_watched)"
    by (simp add: dict_in_def alice_watched_def boot_def)
  have h3: "get_latest_movies (feed read_only) (construct_rss_url ''alice'') 1 =
              Inr ((''Dune Part Two'', ''http://x/1'') # [])"
    by code_simp
  have h4: "map_of (last_logged_movies alice_watched) ''alice'' \<noteq> Some ''Dune Part Two''"
    by (simp add: alice_watched_def boot_def)
  have h5: "delivered read_only"
    by (simp add: read_only_def quiet_def)
  have s: "subscribed_users alice_watched = [(IntKey 42, ''alice'')]"
          "last_logged_movies alice_watched = []"
    by (simp_all add: alice_watched_def boot_def)
  show ?thesis
    using h1 save_failure_keeps_mutation [OF h1 h1 h2 h1 h5 h3 h4, of 7 "''bob''" "[]" alice_watched "IntKey 42"]
    unfolding s by (simp add: dict_del_def)
qed

text \<open>
  Claim C5 as stated fails: chat 42 subscribes while \<open>users.json\<close> cannot be opened. The
  handler ends with \<open>OSError\<close>; the dictionary in memory holds the subscription, the
  file does not exist, and no answer was sent.
\<close>

theorem save_failure_counterexample:
  "subscribe read_only 42 [''alice''] boot =
     (Some OSError, \<lparr>subscribed_users = [(IntKey 42, ''alice'')], last_logged_movies = [],
                     users_json = Missing, last_logged_movies_json = Missing, sent = []\<rparr>)"
  by code_simp

subsection \<open>When delivery fails\<close>

text \<open>
  Claim C4, as amended. \<open>send_message\<close> is called with no handler around it, so an
  exception from Telegram ends \<open>check_for_new_movies\<close>. When the items \<open>before\<close> have been
  processed without an exception, reaching the state \<open>st1\<close>, and delivery is refused for
  the next item, whose movie is new, the run ends with that exception in the state
  \<open>st1\<close>: the marker of the refused item is not advanced, nothing is saved for it, and
  the items \<open>after\<close> it are not processed in this run.
\<close>

theorem delivery_failure_ends_tick:
  assumes "subscribed_users st = before @ (chat_id, username) # after"
      and "for_items ws 0 before st = (None, st1)"
      and "get_latest_movies (feed (ws (length before))) (construct_rss_url username) 1 =
             Inr ((ttl, lnk) # rest)"
      and "map_of (last_logged_movies st1) username \<noteq> Some ttl"
      and "\<not> delivered (ws (length before))"
  shows "check_for_new_movies ws st = (Some TelegramError, st1)"
proof -
  have one: "check_one (ws (length before)) (chat_id, username) st1 = (Some TelegramError, st1)"
    using assms(3,4,5) by (simp add: check_one_def send_message_def)
  show ?thesis
    unfolding check_for_new_movies_def assms(1) for_items_append assms(2)
    using one by simp
qed

text \<open>
  Chats 1, 2 and 3 watch \<open>alice\<close>, \<open>bob\<close> and \<open>carol\<close>; Telegram refuses the message to
  chat 2. Chat 1 has been notified; nothing is recorded for \<open>bob\<close>; \<open>carol\<close>'s watcher is
  not reached.
\<close>

theorem delivery_failure_ends_tick_witness:
  "\<not> delivered (refusing_at 1 1) \<and>
   check_for_new_movies (refusing_at 1)
     (boot\<lparr>subscribed_users := [(IntKey 1, ''alice''), (IntKey 2, ''bob''), (IntKey 3, ''carol'')]\<rparr>) =
     (Some TelegramError,
      \<lparr>subscribed_users = [(IntKey 1, ''alice''), (IntKey 2, ''bob''), (IntKey 3, ''carol'')],
       last_logged_movies = [(''alice'', ''Dune Part Two'')],
       users_json = Content [(''1'', ''alice''), (''2'', ''bob''), (''3'', ''carol'')],
       last_logged_movies_json = Content [(''alice'', ''Dune Part Two'')],
       sent = [(IntKey 1, notification ''alice'' ''Dune Part Two'' ''http://x/1'')]\<rparr>)"
proof -
  let ?st = "boot\<lparr>subscribed_users :=
               [(IntKey 1, ''alice''), (IntKey 2, ''bob''), (IntKey 3, ''carol'')]\<rparr>"
  let ?st1 = "\<lparr>subscribed_users = [(IntKey 1, ''alice''), (IntKey 2, ''bob''), (IntKey 3, ''carol'')],
       last_logged_movies = [(''alice'', ''Dune Part Two'')],
       users_json = Content [(''1'', ''alice''), (''2'', ''bob''), (''3'', ''carol'')],
       last_logged_movies_json = Content [(''alice'', ''Dune Part Two'')],
       sent = [(IntKey 1, notification ''alice'' ''Dune Part Two'' ''http://x/1'')]\<rparr>"
  have h1: "subscribed_users ?st = [(IntKey 1, ''alice'')] @ (IntKey 2, ''bob'') # [(IntKey 3, ''carol'')]"
    by (simp add: boot_def)
  have h2: "for_items (refusing_at 1) 0 [(IntKey 1, ''alice'')] ?st = (None, ?st1)"
    by code_simp
  have h3: "get_latest_movies (feed (refusing_at 1 (length [(IntKey 1, ''alice'')])))
              (construct_rss_url ''bob'') 1 = Inr ((''Heat'', ''http://x/2'') # [])"
    by code_simp
  have h4: "map_of (last_logged_movies ?st1) ''bob'' \<noteq> Some ''Heat''"
    by simp
  have h5: "\<not> delivered (refusing_at 1 (length [(IntKey 1, ''alice'')]))"
    by (simp add: refusing_at_def)
  have h5': "\<not> delivered (refusing_at 1 1)"
    by (simp add: refusing_at_def)
  show ?thesis
    using h5' delivery_failure_ends_tick [OF h1 h2 h3 h4 h5] by simp
qed

text \<open>
  Claim C4 as stated fails: chats 1 and 2 watch \<open>alice\<close> and \<open>bob\<close>, and Telegram refuses
  the message to chat 1 only. The run ends with the exception and the state it started
  in: chat 2 is not notified and nothing is recorded for \<open>bob\<close>, although the same step
  taken for chat 2 alone would have notified it.
\<close>

theorem delivery_failure_counterexample:
  "check_for_new_movies (refusing_at 0)
     (boot\<lparr>subscribed_users := [(IntKey 1, ''alice''), (IntKey 2, ''bob'')]\<rparr>) =
     (Some TelegramError,
      \<lparr>subscribed_users = [(IntKey 1, ''alice''), (IntKey 2, ''bob'')], last_logged_movies = [],
       users_json = Missing, last_logged_movies_json = Missing, sent = []\<rparr>) \<and>
   sent (snd (check_one (refusing_at 0 1) (IntKey 2, ''bob'')
     (boot\<lparr>subscribed_users := [(IntKey 1, ''alice''), (IntKey 2, ''bob'')]\<rparr>))) =
     [(IntKey 2, notification ''bob'' ''Heat'' ''http://x/2'')]"
  by code_simp

subsection \<open>Two runs on the same feed\<close>

lemma save_data_calm:
  "calm w \<Longrightarrow> save_data w st =
     (None, st\<lparr>users_json := Content (json_dump_users (subscribed_users st)),
               last_logged_movies_json := Content (json_dump_movies (last_logged_movies st))\<rparr>)"
  by (simp add: save_data_def calm_def)

text \<open>The loop body in a calm world, for an item that watches another username.\<close>

lemma check_one_calm:
  assumes "calm w" and "u \<noteq> v" and "fetch_returns w v"
  shows "\<exists>st'. check_one w (c, v) st = (None, st') \<and>
           subscribed_users st' = subscribed_users st \<and>
           map_of (last_logged_movies st') u = map_of (last_logged_movies st) u \<and>
           (\<exists>new. sent st' = sent st @ new \<and> (\<forall>m \<in> set new. fst m = c))"
proof -
  obtain movies where got: "get_latest_movies (feed w) (construct_rss_url v) 1 = Inr movies"
    using assms(3) by (auto simp: fetch_returns_def split: sum.splits)
  show ?thesis
  proof (cases movies)
    case Nil
    with got show ?thesis by (simp add: check_one_def Let_def)
  next
    case (Cons m ms)
    show ?thesis
    proof (cases "map_of (last_logged_movies st) v = Some (fst m)")
      case True
      with Cons got show ?thesis by (simp add: check_one_def Let_def)
    next
      case False
      with Cons got assms(1,2) show ?thesis
        by (simp add: check_one_def Let_def send_message_def save_data_calm calm_def
            map_of_dict_set)
    qed
  qed
qed

lemma check_one_seen:
  assumes "get_latest_movies (feed w) (construct_rss_url u) 1 = Inr [(ttl, lnk)]"
      and "map_of (last_logged_movies st) u = Some ttl"
  shows "check_one w (c, u) st = (None, st)"
  using assms by (simp add: check_one_def Let_def)

lemma check_one_new:
  assumes "calm w"
      and "get_latest_movies (feed w) (construct_rss_url u) 1 = Inr [(ttl, lnk)]"
      and "map_of (last_logged_movies st) u \<noteq> Some ttl"
  shows "\<exists>st'. check_one w (c, u) st = (None, st') \<and>
           subscribed_users st' = subscribed_users st \<and>
           map_of (last_logged_movies st') u = Some ttl \<and>
           sent st' = sent st @ [(c, notification u ttl lnk)]"
  using assms
  by (simp add: check_one_def Let_def send_message_def save_data_calm calm_def map_of_dict_set)

text \<open>Once the marker holds the title, the loop sends nothing to the watchers.\<close>

lemma for_items_seen:
  assumes "\<forall>i. calm (ws i)"
      and "\<forall>i. get_latest_movies (feed (ws i)) (construct_rss_url u) 1 = Inr [(ttl, lnk)]"
      and "distinct (map fst subs)"
      and "\<forall>i. \<forall>p \<in> set subs. fetch_returns (ws i) (snd p)"
      and "set items \<subseteq> set subs"
      and "map_of (last_logged_movies st) u = Some ttl"
  shows "\<exists>st' new. for_items ws i items st = (None, st') \<and>
           subscribed_users st' = subscribed_users st \<and>
           map_of (last_logged_movies st') u = Some ttl \<and>
           sent st' = sent st @ new \<and>
           filter (\<lambda>m. (fst m, u) \<in> set subs) new = []"
  using assms(5,6)
proof (induction items arbitrary: i st)
  case Nil
  then show ?case by simp
next
  case (Cons item items)
  obtain c v where item: "item = (c, v)" by (cases item)
  have sub: "set items \<subseteq> set subs" and here: "(c, v) \<in> set subs"
    using Cons.prems(1) item by auto
  have returns: "fetch_returns (ws i) v"
    using assms(4) here by force
  show ?case
  proof (cases "v = u")
    case True
    have fetch: "get_latest_movies (feed (ws i)) (construct_rss_url u) 1 = Inr [(ttl, lnk)]"
      using assms(2) by simp
    have "check_one (ws i) item st = (None, st)"
      unfolding item True using fetch Cons.prems(2) by (rule check_one_seen)
    moreover obtain st' new where
      "for_items ws (Suc i) items st = (None, st')"
      "subscribed_users st' = subscribed_users st"
      "map_of (last_logged_movies st') u = Some ttl"
      "sent st' = sent st @ new"
      "filter (\<lambda>m. (fst m, u) \<in> set subs) new = []"
      using Cons.IH [OF sub Cons.prems(2), of "Suc i"] by blast
    ultimately show ?thesis by simp
  next
    case False
    have calm_i: "calm (ws i)" using assms(1) by simp
    obtain st1 new1 where step:
      "check_one (ws i) (c, v) st = (None, st1)"
      "subscribed_users st1 = subscribed_users st"
      "map_of (last_logged_movies st1) u = map_of (last_logged_movies st) u"
      "sent st1 = sent st @ new1"
      "\<forall>m \<in> set new1. fst m = c"
      using check_one_calm [OF calm_i _ returns, of u c st] False by blast
    have not_watcher: "(c, u) \<notin> set subs"
      using eq_key_imp_eq_value [OF assms(3) here] False by blast
    have quiet1: "filter (\<lambda>m. (fst m, u) \<in> set subs) new1 = []"
      using step(5) not_watcher by (auto simp: filter_empty_conv)
    have mark1: "map_of (last_logged_movies st1) u = Some ttl"
      using step(3) Cons.prems(2) by simp
    obtain st' new where rest:
      "for_items ws (Suc i) items st1 = (None, st')"
      "subscribed_users st' = subscribed_users st1"
      "map_of (last_logged_movies st') u = Some ttl"
      "sent st' = sent st1 @ new"
      "filter (\<lambda>m. (fst m, u) \<in> set subs) new = []"
      using Cons.IH [OF sub mark1, of "Suc i"] by blast
    have "sent st' = sent st @ (new1 @ new)"
      using step(4) rest(4) by simp
    moreover have "filter (\<lambda>m. (fst m, u) \<in> set subs) (new1 @ new) = []"
      using quiet1 rest(5) by simp
    ultimately show ?thesis
      using step(1,2) rest(1,2,3) item by (intro exI [of _ st'] exI [of _ "new1 @ new"]) simp
  qed
qed

text \<open>While the marker differs, the first watcher met is notified, and no other.\<close>

lemma for_items_new:
  assumes "\<forall>i. calm (ws i)"
      and "\<forall>i. get_latest_movies (feed (ws i)) (construct_rss_url u) 1 = Inr [(ttl, lnk)]"
      and "distinct (map fst subs)"
      and "\<forall>i. \<forall>p \<in> set subs. fetch_returns (ws i) (snd p)"
      and "set items \<subseteq> set subs"
      and "map_of (last_logged_movies st) u \<noteq> Some ttl"
      and "find (\<lambda>p. snd p = u) items = Some (d, u)"
  shows "\<exists>st' new. for_items ws i items st = (None, st') \<and>
           subscribed_users st' = subscribed_users st \<and>
           map_of (last_logged_movies st') u = Some ttl \<and>
           sent st' = sent st @ new \<and>
           filter (\<lambda>m. (fst m, u) \<in> set subs) new = [(d, notification u ttl lnk)]"
  using assms(5,6,7)
proof (induction items arbitrary: i st)
  case Nil
  then show ?case by simp
next
  case (Cons item items)
  obtain c v where item: "item = (c, v)" by (cases item)
  have sub: "set items \<subseteq> set subs" and here: "(c, v) \<in> set subs"
    using Cons.prems(1) item by auto
  have returns: "fetch_returns (ws i) v"
    using assms(4) here by force
  have calm_i: "calm (ws i)" using assms(1) by simp
  show ?case
  proof (cases "v = u")
    case True
    have cd: "c = d" using Cons.prems(3) item True by simp
    have fetch: "get_latest_movies (feed (ws i)) (construct_rss_url u) 1 = Inr [(ttl, lnk)]"
      using assms(2) by simp
    obtain st1 where step:
      "check_one (ws i) (d, u) st = (None, st1)"
      "subscribed_users st1 = subscribed_users st"
      "map_of (last_logged_movies st1) u = Some ttl"
      "sent st1 = sent st @ [(d, notification u ttl lnk)]"
      using check_one_new [OF calm_i fetch Cons.prems(2), of d] by blast
    obtain st' new where rest:
      "for_items ws (Suc i) items st1 = (None, st')"
      "subscribed_users st' = subscribed_users st1"
      "map_of (last_logged_movies st') u = Some ttl"
      "sent st' = sent st1 @ new"
      "filter (\<lambda>m. (fst m, u) \<in> set subs) new = []"
      using for_items_seen [OF assms(1,2,3,4) sub step(3), of "Suc i"] by blast
    have "(d, u) \<in> set subs" using here cd True by simp
    then have "filter (\<lambda>m. (fst m, u) \<in> set subs) ((d, notification u ttl lnk) # new) =
               [(d, notification u ttl lnk)]"
      using rest(5) by simp
    moreover have "sent st' = sent st @ ((d, notification u ttl lnk) # new)"
      using step(4) rest(4) by simp
    ultimately show ?thesis
      using step(1,2) rest(1,2,3) item True cd
      by (intro exI [of _ st'] exI [of _ "(d, notification u ttl lnk) # new"]) simp
  next
    case False
    obtain st1 new1 where step:
      "check_one (ws i) (c, v) st = (None, st1)"
      "subscribed_users st1 = subscribed_users st"
      "map_of (last_logged_movies st1) u = map_of (last_logged_movies st) u"
      "sent st1 = sent st @ new1"
      "\<forall>m \<in> set new1. fst m = c"
      using check_one_calm [OF calm_i _ returns, of u c st] False by blast
    have not_watcher: "(c, u) \<notin> set subs"
      using eq_key_imp_eq_value [OF assms(3) here] False by blast
    have quiet1: "filter (\<lambda>m. (fst m, u) \<in> set subs) new1 = []"
      using step(5) not_watcher by (auto simp: filter_empty_conv)
    have mark1: "map_of (last_logged_movies st1) u \<noteq> Some ttl"
      using step(3) Cons.prems(2) by simp
    have first: "find (\<lambda>p. snd p = u) items = Some (d, u)"
      using Cons.prems(3) item False by simp
    obtain st' new where rest:
      "for_items ws (Suc i) items st1 = (None, st')"
      "subscribed_users st' = subscribed_users st1"
      "map_of (last_logged_movies st') u = Some ttl"
      "sent st' = sent st1 @ new"
      "filter (\<lambda>m. (fst m, u) \<in> set subs) new = [(d, notification u ttl lnk)]"
      using Cons.IH [OF sub mark1 first, of "Suc i"] by blast
    have "sent st' = sent st @ (new1 @ new)"
      using step(4) rest(4) by simp
    moreover have "filter (\<lambda>m. (fst m, u) \<in> set subs) (new1 @ new) = [(d, notification u ttl lnk)]"
      using quiet1 rest(5) by simp
    ultimately show ?thesis
      using step(1,2) rest(1,2,3) item by (intro exI [of _ st'] exI [of _ "new1 @ new"]) simp
  qed
qed

lemma emitted_append: "sent st' = sent st @ new \<Longrightarrow> emitted st st' = new"
  by (simp add: emitted_def)

lemma to_chat_of_watchers:
  assumes "(d, u) \<in> set subs"
  shows "to_chat d new = to_chat d (filter (\<lambda>m. (fst m, u) \<in> set subs) new)"
  unfolding to_chat_def filter_filter
  using assms by (intro filter_cong refl) auto

text \<open>
  Claim C2, as amended. \<open>chat_id\<close> is the first chat, in the order of the dictionary,
  that watches \<open>username\<close> (its only watcher, when there is one); in both runs every
  fetch of that feed returns the same latest movie, and nothing fails: every fetch for a
  subscribed username returns, every message is delivered, every save succeeds. Then
  both runs
  end without an exception. Of the messages of the first run, those to \<open>chat_id\<close> are:
  none if the marker already held the title, and otherwise exactly one, the notification
  of that movie. The second run sends it none. After either run the marker holds the
  title.
\<close>

theorem one_notification_then_none:
  assumes "distinct (map fst (subscribed_users st))"
      and "find (\<lambda>p. snd p = username) (subscribed_users st) = Some (chat_id, username)"
      and "\<forall>i. get_latest_movies (feed (ws1 i)) (construct_rss_url username) 1 = Inr [(ttl, lnk)]"
      and "\<forall>i. get_latest_movies (feed (ws2 i)) (construct_rss_url username) 1 = Inr [(ttl, lnk)]"
      and "\<forall>i. calm (ws1 i)"
      and "\<forall>i. calm (ws2 i)"
      and "\<forall>i. \<forall>p \<in> set (subscribed_users st). fetch_returns (ws1 i) (snd p)"
      and "\<forall>i. \<forall>p \<in> set (subscribed_users st). fetch_returns (ws2 i) (snd p)"
      and "st1 = snd (check_for_new_movies ws1 st)"
      and "st2 = snd (check_for_new_movies ws2 st1)"
  shows "fst (check_for_new_movies ws1 st) = None \<and>
         fst (check_for_new_movies ws2 st1) = None \<and>
         to_chat chat_id (emitted st st1) =
           (if map_of (last_logged_movies st) username = Some ttl then []
            else [(chat_id, notification username ttl lnk)]) \<and>
         to_chat chat_id (emitted st1 st2) = [] \<and>
         map_of (last_logged_movies st1) username = Some ttl \<and>
         map_of (last_logged_movies st2) username = Some ttl"
proof -
  let ?S = "subscribed_users st"
  have watcher: "(chat_id, username) \<in> set ?S"
    using assms(2) by (auto simp: find_Some_iff in_set_conv_nth)
  have first_run: "\<exists>s new. for_items ws1 0 ?S st = (None, s) \<and>
           subscribed_users s = ?S \<and>
           map_of (last_logged_movies s) username = Some ttl \<and>
           sent s = sent st @ new \<and>
           filter (\<lambda>m. (fst m, username) \<in> set ?S) new =
             (if map_of (last_logged_movies st) username = Some ttl then []
              else [(chat_id, notification username ttl lnk)])"
  proof (cases "map_of (last_logged_movies st) username = Some ttl")
    case True
    then show ?thesis
      using for_items_seen [OF assms(5,3,1,7) subset_refl True, of 0] by simp
  next
    case False
    then show ?thesis
      using for_items_new [OF assms(5,3,1,7) subset_refl False assms(2), of 0] by simp
  qed
  then obtain s new where r1:
    "for_items ws1 0 ?S st = (None, s)"
    "subscribed_users s = ?S"
    "map_of (last_logged_movies s) username = Some ttl"
    "sent s = sent st @ new"
    "filter (\<lambda>m. (fst m, username) \<in> set ?S) new =
       (if map_of (last_logged_movies st) username = Some ttl then []
        else [(chat_id, notification username ttl lnk)])"
    by blast
  have s1: "st1 = s" and e1: "fst (check_for_new_movies ws1 st) = None"
    using r1(1) assms(9) by (simp_all add: check_for_new_movies_def)
  obtain s' new' where r2:
    "for_items ws2 0 ?S st1 = (None, s')"
    "map_of (last_logged_movies s') username = Some ttl"
    "sent s' = sent st1 @ new'"
    "filter (\<lambda>m. (fst m, username) \<in> set ?S) new' = []"
    using for_items_seen [OF assms(6,4,1,8) subset_refl, of st1 0] r1(3) s1 by blast
  have s2: "st2 = s'" and e2: "fst (check_for_new_movies ws2 st1) = None"
    using r2(1) assms(10) r1(2) s1 by (simp_all add: check_for_new_movies_def)
  have em1: "emitted st st1 = new" using r1(4) s1 by (simp add: emitted_append)
  have em2: "emitted st1 st2 = new'" using r2(3) s2 by (simp add: emitted_append)
  have c1: "to_chat chat_id new =
              (if map_of (last_logged_movies st) username = Some ttl then []
               else [(chat_id, notification username ttl lnk)])"
    unfolding to_chat_of_watchers [OF watcher, of new] r1(5) by (simp add: to_chat_def)
  have c2: "to_chat chat_id new' = []"
    unfolding to_chat_of_watchers [OF watcher, of new'] r2(4) by (simp add: to_chat_def)
  show ?thesis
    using e1 e2 r1(3) r2(2) s1 s2 c1 c2 unfolding em1 em2 by simp
qed

text \<open>
  The scenario of the specification: chat 42 watches \<open>alice\<close>, whose feed holds "Dune
  Part Two" during both runs.
\<close>

theorem one_notification_then_none_witness:
  "find (\<lambda>p. snd p = ''alice'') (subscribed_users alice_watched) = Some (IntKey 42, ''alice'') \<and>
   to_chat (IntKey 42)
     (emitted alice_watched (snd (check_for_new_movies (\<lambda>i. quiet three_feeds) alice_watched))) =
     [(IntKey 42, notification ''alice'' ''Dune Part Two'' ''http://x/1'')] \<and>
   to_chat (IntKey 42)
     (emitted (snd (check_for_new_movies (\<lambda>i. quiet three_feeds) alice_watched))
        (snd (check_for_new_movies (\<lambda>i. quiet three_feeds)
           (snd (check_for_new_movies (\<lambda>i. quiet three_feeds) alice_watched))))) = []"
proof -
  let ?ws = "\<lambda>i::nat. quiet three_feeds"
  have h1: "distinct (map fst (subscribed_users alice_watched))"
    by (simp add: alice_watched_def boot_def)
  have h2: "find (\<lambda>p. snd p = ''alice'') (subscribed_users alice_watched) = Some (IntKey 42, ''alice'')"
    by (simp add: alice_watched_def boot_def)
  have g: "get_latest_movies (feed (quiet three_feeds)) (construct_rss_url ''alice'') 1 =
             Inr [(''Dune Part Two'', ''http://x/1'')]"
    by code_simp
  have h3: "\<forall>i. get_latest_movies (feed (?ws i)) (construct_rss_url ''alice'') 1 =
             Inr [(''Dune Part Two'', ''http://x/1'')]"
    using g by simp
  have h5: "\<forall>i. \<forall>p \<in> set (subscribed_users alice_watched). fetch_returns (?ws i) (snd p)"
    using g by (simp add: alice_watched_def boot_def fetch_returns_def)
  have h4: "\<forall>i. calm (?ws i)"
    by (simp add: calm_def quiet_def)
  have new: "map_of (last_logged_movies alice_watched) ''alice'' \<noteq> Some ''Dune Part Two''"
    by (simp add: alice_watched_def boot_def)
  show ?thesis
    using h2 new one_notification_then_none [OF h1 h2 h3 h3 h4 h4 h5 h5 refl refl]
    by simp
qed

text \<open>
  Claim C2 as stated fails in the steady state: when the marker of \<open>alice\<close> already
  holds the title her feed returns, two runs in succession on that feed send no
  notification at all, not one.
\<close>

theorem steady_state_counterexample:
  "emitted (alice_watched\<lparr>last_logged_movies := [(''alice'', ''Dune Part Two'')]\<rparr>)
     (snd (check_for_new_movies (\<lambda>i. quiet three_feeds)
        (alice_watched\<lparr>last_logged_movies := [(''alice'', ''Dune Part Two'')]\<rparr>))) = [] \<and>
   emitted (snd (check_for_new_movies (\<lambda>i. quiet three_feeds)
        (alice_watched\<lparr>last_logged_movies := [(''alice'', ''Dune Part Two'')]\<rparr>)))
     (snd (check_for_new_movies (\<lambda>i. quiet three_feeds)
        (snd (check_for_new_movies (\<lambda>i. quiet three_feeds)
           (alice_watched\<lparr>last_logged_movies := [(''alice'', ''Dune Part Two'')]\<rparr>))))) = []"
  by code_simp

end
